theory Spec2Isabelle
  imports Complex_Main
begin

section \<open>JavaScript numbers\<close>

text \<open>
  A JavaScript number is an IEEE-754 double. A finite double is modelled by the rational
  it denotes; \<open>NaN\<close> and the two infinities (\<open>Infinity True\<close> is \<open>-Infinity\<close>) are
  values of their own. Every operation rounds its exact result to the nearest double,
  a tie going to the even significand, as the standard asks. The sign of zero is not
  modelled.
\<close>

datatype number = NaN | Infinity bool | Fin rat

fun negate :: "number \<Rightarrow> number" where
  "negate (Fin q) = Fin (- q)"
| "negate (Infinity s) = Infinity (\<not> s)"
| "negate NaN = NaN"

text \<open>The number of binary digits of a positive integer.\<close>

function bits :: "int \<Rightarrow> nat" where
  "bits n = (if n \<le> 0 then 0 else Suc (bits (n div 2)))"
  by pat_completeness auto
termination
  by (relation "measure nat") auto

declare bits.simps [simp del]

definition pow2 :: "int \<Rightarrow> rat" where
  "pow2 e = (if 0 \<le> e then 2 ^ nat e else 1 / 2 ^ nat (- e))"

text \<open>The exponent \<open>e\<close> with \<open>2 ^ e \<le> q < 2 ^ (e + 1)\<close>, for a positive \<open>q\<close>.\<close>

definition floor_log2 :: "rat \<Rightarrow> int" where
  "floor_log2 q = (if 1 \<le> q then int (bits \<lfloor>q\<rfloor>) - 1 else - int (bits (\<lceil>1 / q\<rceil> - 1)))"

definition round_half_even :: "rat \<Rightarrow> int" where
  "round_half_even x =
     (let f = \<lfloor>x\<rfloor>; r = x - of_int f
      in if r < 1 / 2 then f else if 1 / 2 < r then f + 1 else if even f then f else f + 1)"

text \<open>
  The double nearest to a rational. A double has a significand of 53 binary digits and
  a unit in the last place of at least \<open>2 ^ -1074\<close>; a result of \<open>2 ^ 1024\<close> or more is
  infinite.
\<close>

definition double_pos :: "rat \<Rightarrow> number" where
  "double_pos q =
     (let e = max (floor_log2 q - 52) (- 1074);
          m = round_half_even (q / pow2 e)
      in if 1024 < int (bits m) + e then Infinity False else Fin (of_int m * pow2 e))"

definition double :: "rat \<Rightarrow> number" where
  "double q =
     (if q = 0 then Fin 0 else if 0 < q then double_pos q else negate (double_pos (- q)))"

text \<open>The \<^verbatim>\<open>*\<close> operator on numbers.\<close>

fun times_number :: "number \<Rightarrow> number \<Rightarrow> number" where
  "times_number (Fin a) (Fin b) = double (a * b)"
| "times_number (Infinity s) (Fin b) = (if b = 0 then NaN else Infinity (s \<noteq> (b < 0)))"
| "times_number (Fin a) (Infinity s) = (if a = 0 then NaN else Infinity (s \<noteq> (a < 0)))"
| "times_number (Infinity s) (Infinity t) = Infinity (s \<noteq> t)"
| "times_number NaN y = NaN"
| "times_number x NaN = NaN"

text \<open>
  \<^verbatim>\<open>Math.round\<close>: the nearest integer, a tie going towards \<open>+Infinity\<close>. The
  result is exact: the integers near a double that is not one are doubles.
\<close>

fun Math_round :: "number \<Rightarrow> number" where
  "Math_round (Fin q) = Fin (of_int \<lfloor>q + 1 / 2\<rfloor>)"
| "Math_round (Infinity s) = Infinity s"
| "Math_round NaN = NaN"

subsection \<open>parseFloat\<close>

text \<open>
  \<^verbatim>\<open>parseFloat\<close> skips leading white space, then reads the longest prefix that is a
  \<open>StrDecimalLiteral\<close> (an optional sign, then \<^verbatim>\<open>Infinity\<close> or decimal digits with an
  optional fraction and an optional exponent); no such prefix gives \<open>NaN\<close>. The result
  is the double nearest to the decimal value read. Strings are byte strings here, so
  only the ASCII white space characters are skipped.
\<close>

definition isDigit :: "char \<Rightarrow> bool" where
  "isDigit c = (48 \<le> (of_char c :: nat) \<and> (of_char c :: nat) \<le> 57)"

definition StrWhiteSpaceChar :: "char \<Rightarrow> bool" where
  "StrWhiteSpaceChar c = ((of_char c :: nat) = 32 \<or> (9 \<le> (of_char c :: nat) \<and> (of_char c :: nat) \<le> 13))"

definition digitsValue :: "string \<Rightarrow> int" where
  "digitsValue ds = foldl (\<lambda>acc c. 10 * acc + (of_char c - 48)) 0 ds"

definition pow10 :: "int \<Rightarrow> rat" where
  "pow10 e = (if 0 \<le> e then 10 ^ nat e else 1 / 10 ^ nat (- e))"

definition signedDigits :: "bool \<Rightarrow> string \<Rightarrow> int" where
  "signedDigits neg s =
     (let ds = takeWhile isDigit s
      in if ds = [] then 0 else if neg then - digitsValue ds else digitsValue ds)"

text \<open>The exponent that an \<open>ExponentPart\<close> at the head of the string denotes, 0 without one.\<close>

definition ExponentPart :: "string \<Rightarrow> int" where
  "ExponentPart s =
     (case s of
        [] \<Rightarrow> 0
      | c # r \<Rightarrow>
          if c = CHR ''e'' \<or> c = CHR ''E'' then
            (case r of
               [] \<Rightarrow> 0
             | d # r' \<Rightarrow>
                 if d = CHR ''+'' then signedDigits False r'
                 else if d = CHR ''-'' then signedDigits True r'
                 else signedDigits False r)
          else 0)"

definition StrUnsignedDecimalLiteral :: "string \<Rightarrow> number" where
  "StrUnsignedDecimalLiteral s =
     (if take 8 s = ''Infinity'' then Infinity False
      else
        let ip = takeWhile isDigit s; r = dropWhile isDigit s
        in case r of
             [] \<Rightarrow> if ip = [] then NaN else double (of_int (digitsValue ip))
           | c # r' \<Rightarrow>
               if c = CHR ''.'' then
                 (let fp = takeWhile isDigit r'; r'' = dropWhile isDigit r'
                  in if ip = [] \<and> fp = [] then NaN
                     else double
                            ((of_int (digitsValue ip) + of_int (digitsValue fp) / 10 ^ length fp)
                               * pow10 (ExponentPart r'')))
               else if ip = [] then NaN
               else double (of_int (digitsValue ip) * pow10 (ExponentPart r)))"

definition parseFloat :: "string \<Rightarrow> number" where
  "parseFloat s =
     (case dropWhile StrWhiteSpaceChar s of
        [] \<Rightarrow> NaN
      | c # r \<Rightarrow>
          if c = CHR ''+'' then StrUnsignedDecimalLiteral r
          else if c = CHR ''-'' then negate (StrUnsignedDecimalLiteral r)
          else StrUnsignedDecimalLiteral (c # r))"

section \<open>Property lookup on an object literal\<close>

text \<open>
  \<^verbatim>\<open>obj[key]\<close> on an object literal finds the literal's own properties and, for any
  other key, the properties the literal inherits from \<^verbatim>\<open>Object.prototype\<close>: those are
  functions (and, for \<^verbatim>\<open>__proto__\<close>, the prototype object itself). A key found
  nowhere gives \<^verbatim>\<open>undefined\<close>.
\<close>

datatype jsval = Num number | Obj | Undefined

definition Object_prototype_keys :: "string list" where
  "Object_prototype_keys =
     [''constructor'', ''__defineGetter__'', ''__defineSetter__'', ''hasOwnProperty'',
      ''__lookupGetter__'', ''__lookupSetter__'', ''isPrototypeOf'', ''propertyIsEnumerable'',
      ''toString'', ''valueOf'', ''__proto__'', ''toLocaleString'']"

definition getProperty :: "(string \<times> number) list \<Rightarrow> string \<Rightarrow> jsval" where
  "getProperty literal key =
     (case map_of literal key of
        Some v \<Rightarrow> Num v
      | None \<Rightarrow> if key \<in> set Object_prototype_keys then Obj else Undefined)"

text \<open>Truthiness, as \<^verbatim>\<open>||\<close> tests it, and the conversion that \<^verbatim>\<open>*\<close> applies.\<close>

fun truthy :: "jsval \<Rightarrow> bool" where
  "truthy (Num (Fin q)) = (q \<noteq> 0)"
| "truthy (Num (Infinity s)) = True"
| "truthy (Num NaN) = False"
| "truthy Obj = True"
| "truthy Undefined = False"

fun ToNumber :: "jsval \<Rightarrow> number" where
  "ToNumber (Num n) = n"
| "ToNumber Obj = NaN"
| "ToNumber Undefined = NaN"

definition or_else :: "jsval \<Rightarrow> jsval \<Rightarrow> jsval" where
  "or_else a b = (if truthy a then a else b)"

section \<open>Reward calculation\<close>

text \<open>
  \<^verbatim>\<open>MemStorage.calculateXPReward\<close> and \<^verbatim>\<open>MemStorage.calculateEUReward\<close>. A numeric
  literal of the source is the double nearest to it.
\<close>

definition basePriorityMultipliers :: "(string \<times> number) list" where
  "basePriorityMultipliers =
     [(''low'', Fin 10), (''medium'', Fin 15), (''high'', Fin 25), (''urgent'', Fin 40)]"

definition domainMultipliers :: "(string \<times> number) list" where
  "domainMultipliers =
     [(''academic'', double 1), (''fitness'', double (5 / 2)), (''creative'', double (4 / 5)),
      (''social'', double (6 / 5)), (''maintenance'', double (3 / 5))]"

definition Mem_calculateXPReward :: "string \<Rightarrow> number \<Rightarrow> number" where
  "Mem_calculateXPReward priority hours =
     (let baseXP = or_else (getProperty basePriorityMultipliers priority) (Num (Fin 15))
      in Math_round (times_number (ToNumber baseXP) hours))"

definition Mem_calculateEUReward :: "string \<Rightarrow> number \<Rightarrow> number" where
  "Mem_calculateEUReward domain hours =
     (let multiplier = or_else (getProperty domainMultipliers domain) (Num (Fin 1))
      in Math_round (times_number (times_number hours (ToNumber multiplier)) (Fin 10)))"

text \<open>\<^verbatim>\<open>DatabaseStorage\<close> carries its own copies of the two functions.\<close>

definition Db_calculateXPReward :: "string \<Rightarrow> number \<Rightarrow> number" where
  "Db_calculateXPReward priority hours =
     (let baseXP = or_else (getProperty basePriorityMultipliers priority) (Num (Fin 15))
      in Math_round (times_number (ToNumber baseXP) hours))"

definition Db_calculateEUReward :: "string \<Rightarrow> number \<Rightarrow> number" where
  "Db_calculateEUReward domain hours =
     (let multiplier = or_else (getProperty domainMultipliers domain) (Num (Fin 1))
      in Math_round (times_number (times_number hours (ToNumber multiplier)) (Fin 10)))"


section \<open>The task table\<close>

text \<open>
  A \<^verbatim>\<open>Date\<close> is its time value, in milliseconds. A nullable column is an \<open>option\<close>.
  The two numeric columns hold their decimal text, as the schema declares them.
\<close>

type_synonym Date = int

record Task =
  id_field :: string
  userId :: string
  title :: string
  description :: "string option"
  domain :: string
  priority :: string
  estimatedHours :: string
  actualHours :: "string option"
  xpReward :: number
  euReward :: number
  isCompleted :: bool
  completedAt :: "Date option"
  dueDate :: "Date option"
  createdAt :: Date
  updatedAt :: Date

text \<open>
  \<^verbatim>\<open>InsertTask\<close> and \<^verbatim>\<open>UpdateTask\<close>, the types inferred from \<^verbatim>\<open>insertTaskSchema\<close> and
  \<^verbatim>\<open>updateTaskSchema\<close>. An optional key is an \<open>option\<close> (\<open>None\<close>: the key is absent
  or \<^verbatim>\<open>undefined\<close>); an optional key of a nullable column is an \<open>option option\<close>
  (\<open>Some None\<close>: the key holds \<^verbatim>\<open>null\<close>).
\<close>

record InsertTask =
  ins_userId :: string
  ins_title :: string
  ins_description :: "string option option"
  ins_domain :: string
  ins_priority :: "string option"
  ins_estimatedHours :: "string option"
  ins_actualHours :: "string option option"
  ins_dueDate :: "Date option option"

record UpdateTask =
  upd_title :: "string option"
  upd_description :: "string option option"
  upd_domain :: "string option"
  upd_priority :: "string option"
  upd_estimatedHours :: "string option"
  upd_actualHours :: "string option option"
  upd_isCompleted :: "bool option"
  upd_completedAt :: "Date option option"
  upd_dueDate :: "Date option option"

type_synonym tasks = "string \<rightharpoonup> Task"

text \<open>\<^verbatim>\<open>x ?? null\<close> and \<^verbatim>\<open>x ?? d\<close>.\<close>

definition nullish_null :: "'a option option \<Rightarrow> 'a option" where
  "nullish_null x = (case x of Some (Some v) \<Rightarrow> Some v | _ \<Rightarrow> None)"

definition nullish :: "'a option \<Rightarrow> 'a \<Rightarrow> 'a" where
  "nullish x d = (case x of Some v \<Rightarrow> v | None \<Rightarrow> d)"

text \<open>
  \<^verbatim>\<open>a || b\<close> where \<open>a\<close> is an optional, nullable string and \<open>b\<close> a string: \<open>a\<close> is
  falsy when it is absent, \<^verbatim>\<open>null\<close> or the empty string.
\<close>

definition string_or :: "string option option \<Rightarrow> string \<Rightarrow> string" where
  "string_or a b = (case a of Some (Some s) \<Rightarrow> if s = [] then b else s | _ \<Rightarrow> b)"

text \<open>\<^verbatim>\<open>{...task, ...updateData}\<close>: every key present in the patch replaces the task's.\<close>

definition spread_UpdateTask :: "UpdateTask \<Rightarrow> Task \<Rightarrow> Task" where
  "spread_UpdateTask u t =
     t\<lparr> title := nullish (upd_title u) (title t),
        description := nullish (upd_description u) (description t),
        domain := nullish (upd_domain u) (domain t),
        priority := nullish (upd_priority u) (priority t),
        estimatedHours := nullish (upd_estimatedHours u) (estimatedHours t),
        actualHours := nullish (upd_actualHours u) (actualHours t),
        isCompleted := nullish (upd_isCompleted u) (isCompleted t),
        completedAt := nullish (upd_completedAt u) (completedAt t),
        dueDate := nullish (upd_dueDate u) (dueDate t) \<rparr>"

section \<open>MemStorage\<close>

definition Mem_getTask :: "tasks \<Rightarrow> string \<Rightarrow> Task option" where
  "Mem_getTask ts i = ts i"

text \<open>
  \<^verbatim>\<open>createTask\<close>: the identifier that \<^verbatim>\<open>randomUUID()\<close> returns and the clock reading
  are arguments. The result is the new task and the new map.
\<close>

definition Mem_createTask :: "Date \<Rightarrow> string \<Rightarrow> tasks \<Rightarrow> InsertTask \<Rightarrow> Task \<times> tasks" where
  "Mem_createTask now i ts insertTask =
     (let task =
        \<lparr> id_field = i,
          userId = ins_userId insertTask,
          title = ins_title insertTask,
          description = nullish_null (ins_description insertTask),
          domain = ins_domain insertTask,
          priority = nullish (ins_priority insertTask) ''medium'',
          estimatedHours = nullish (ins_estimatedHours insertTask) ''1.0'',
          actualHours = None,
          xpReward = Fin 0,
          euReward = Fin 0,
          isCompleted = False,
          completedAt = None,
          dueDate = nullish_null (ins_dueDate insertTask),
          createdAt = now,
          updatedAt = now \<rparr>
      in (task, ts(i \<mapsto> task)))"

text \<open>
  \<^verbatim>\<open>updateTask\<close>: \<open>calculatedRewards\<close> is \<open>None\<close> for the empty object, and otherwise
  holds \<open>xpReward\<close>, \<open>euReward\<close> and \<open>actualHours\<close>. The hours are always a string here,
  so \<open>hoursAsNumber\<close> is what \<^verbatim>\<open>parseFloat\<close> gives.
\<close>

definition Mem_calculatedRewards :: "Task \<Rightarrow> UpdateTask \<Rightarrow> (number \<times> number \<times> string) option" where
  "Mem_calculatedRewards existingTask updateData =
     (if upd_isCompleted updateData = Some True \<and> \<not> isCompleted existingTask then
        (let actualHours = string_or (upd_actualHours updateData) (estimatedHours existingTask);
             hoursAsNumber = parseFloat actualHours;
             xp = Mem_calculateXPReward (priority existingTask) hoursAsNumber;
             eu = Mem_calculateEUReward (domain existingTask) hoursAsNumber
         in Some (xp, eu, actualHours))
      else None)"

definition Mem_spread_rewards :: "(number \<times> number \<times> string) option \<Rightarrow> Task \<Rightarrow> Task" where
  "Mem_spread_rewards r t =
     (case r of
        None \<Rightarrow> t
      | Some (xp, eu, hours) \<Rightarrow> t\<lparr> xpReward := xp, euReward := eu, actualHours := Some hours \<rparr>)"

definition Mem_updateTask :: "Date \<Rightarrow> tasks \<Rightarrow> string \<Rightarrow> UpdateTask \<Rightarrow> Task option \<times> tasks" where
  "Mem_updateTask now ts i updateData =
     (case ts i of
        None \<Rightarrow> (None, ts)
      | Some existingTask \<Rightarrow>
          (let calculatedRewards = Mem_calculatedRewards existingTask updateData;
               updatedTask =
                 (Mem_spread_rewards calculatedRewards (spread_UpdateTask updateData existingTask))
                   \<lparr> updatedAt := now \<rparr>
           in (Some updatedTask, ts(i \<mapsto> updatedTask))))"

text \<open>\<^verbatim>\<open>Map.delete\<close> tells whether the key was there.\<close>

definition Mem_deleteTask :: "tasks \<Rightarrow> string \<Rightarrow> bool \<times> tasks" where
  "Mem_deleteTask ts i = (ts i \<noteq> None, ts(i := None))"

section \<open>DatabaseStorage\<close>

subsection \<open>The column types\<close>

text \<open>
  The table is a map from the primary key to the row. The schema declares the two hours
  columns as \<^verbatim>\<open>numeric(4,1)\<close> and the two reward columns as \<^verbatim>\<open>integer\<close>; the
  database is PostgreSQL. A value written to such a column is converted by the column
  type, or the statement fails with an error, which the storage method throws. A text
  column and a time stamp column store what they are given: strings are text without the
  NUL character and dates are in the range of the column.
\<close>

datatype error = ZodError | DatabaseError

text \<open>The decimal digits of a natural number.\<close>

function decimal :: "nat \<Rightarrow> string" where
  "decimal n =
     (if n < 10 then [char_of (48 + n)] else decimal (n div 10) @ [char_of (48 + n mod 10)])"
  by pat_completeness auto
termination
  by (relation "measure (\<lambda>n. n)") auto

declare decimal.simps [simp del]

text \<open>
  The text of a \<^verbatim>\<open>numeric\<close> value: white space around it is skipped; it is \<^verbatim>\<open>NaN\<close> in
  any case of the letters, or an optional sign, decimal digits with an optional point
  (at least one digit in all) and an optional exponent of at least one digit. The
  infinities, which a column with a precision rejects, and the forms that only newer
  versions read (digit separators, integers in another base) are errors here.
\<close>

datatype numeric = NumericNaN | Numeric rat

definition toLower :: "char \<Rightarrow> char" where
  "toLower c =
     (if 65 \<le> (of_char c :: nat) \<and> (of_char c :: nat) \<le> 90 then char_of ((of_char c :: nat) + 32)
      else c)"

text \<open>The exponent at the head of the string and the rest, \<open>None\<close> for an error.\<close>

definition numeric_exponent :: "string \<Rightarrow> (int \<times> string) option" where
  "numeric_exponent s =
     (case s of
        [] \<Rightarrow> Some (0, [])
      | c # r \<Rightarrow>
          if c = CHR ''e'' \<or> c = CHR ''E'' then
            (let neg = (take 1 r = ''-'');
                 r' = (if take 1 r = ''-'' \<or> take 1 r = ''+'' then drop 1 r else r);
                 ds = takeWhile isDigit r'
             in if ds = [] then None
                else Some (if neg then - digitsValue ds else digitsValue ds, dropWhile isDigit r'))
          else Some (0, s))"

definition numeric_digits :: "string \<Rightarrow> error + numeric" where
  "numeric_digits s =
     (let neg = (take 1 s = ''-'');
          s' = (if take 1 s = ''-'' \<or> take 1 s = ''+'' then drop 1 s else s);
          ip = takeWhile isDigit s';
          r = dropWhile isDigit s';
          fp = (if take 1 r = ''.'' then takeWhile isDigit (drop 1 r) else []);
          r' = (if take 1 r = ''.'' then dropWhile isDigit (drop 1 r) else r)
      in if ip = [] \<and> fp = [] then Inl DatabaseError
         else
           (case numeric_exponent r' of
              None \<Rightarrow> Inl DatabaseError
            | Some (e, rest) \<Rightarrow>
                if dropWhile StrWhiteSpaceChar rest = [] then
                  (let v = (of_int (digitsValue ip) + of_int (digitsValue fp) / 10 ^ length fp)
                             * pow10 e
                   in Inr (Numeric (if neg then - v else v)))
                else Inl DatabaseError))"

definition numeric_is_nan :: "string \<Rightarrow> bool" where
  "numeric_is_nan s = (map toLower (take 3 s) = ''nan'')"

definition numeric_in :: "string \<Rightarrow> error + numeric" where
  "numeric_in s =
     (let s' = dropWhile StrWhiteSpaceChar s
      in if numeric_is_nan s' then
           (if dropWhile StrWhiteSpaceChar (drop 3 s') = [] then Inr NumericNaN
            else Inl DatabaseError)
         else numeric_digits s')"

text \<open>
  \<^verbatim>\<open>numeric(4,1)\<close>: the value is rounded to one digit after the point, half away from
  zero, and must then have at most three digits before the point. It is returned as
  text with one digit after the point.
\<close>

definition numeric_tenths :: "rat \<Rightarrow> int" where
  "numeric_tenths v = (if v < 0 then - \<lfloor>- v * 10 + 1 / 2\<rfloor> else \<lfloor>v * 10 + 1 / 2\<rfloor>)"

definition numeric_out :: "int \<Rightarrow> string" where
  "numeric_out t =
     (let digits = decimal (nat \<bar>t\<bar> div 10) @ CHR ''.'' # decimal (nat \<bar>t\<bar> mod 10)
      in if t < 0 then CHR ''-'' # digits else digits)"

definition numeric_4_1_column :: "string \<Rightarrow> error + string" where
  "numeric_4_1_column s =
     (case numeric_in s of
        Inl e \<Rightarrow> Inl e
      | Inr NumericNaN \<Rightarrow> Inr ''NaN''
      | Inr (Numeric v) \<Rightarrow>
          if \<bar>numeric_tenths v\<bar> < 10000 then Inr (numeric_out (numeric_tenths v))
          else Inl DatabaseError)"

text \<open>
  \<^verbatim>\<open>integer\<close>: the driver sends the number as its text, and the column reads an integer
  of 32 binary digits; \<^verbatim>\<open>NaN\<close>, an infinity, a fraction or an integer out of range is an
  error.
\<close>

definition integer_column :: "number \<Rightarrow> error + number" where
  "integer_column n =
     (case n of
        Fin q \<Rightarrow>
          if of_int \<lfloor>q\<rfloor> = q \<and> - 2147483648 \<le> q \<and> q \<le> 2147483647 then Inr (Fin q)
          else Inl DatabaseError
      | _ \<Rightarrow> Inl DatabaseError)"

subsection \<open>The storage methods\<close>

definition Db_getTask :: "tasks \<Rightarrow> string \<Rightarrow> Task option" where
  "Db_getTask ts i = ts i"

text \<open>
  \<^verbatim>\<open>updateTask\<close>: here \<open>calculatedRewards\<close> also holds \<open>completedAt\<close>. The clock
  readings of one call are one instant.
\<close>

definition Db_calculatedRewards ::
    "Date \<Rightarrow> Task \<Rightarrow> UpdateTask \<Rightarrow> (number \<times> number \<times> string \<times> Date) option" where
  "Db_calculatedRewards now existingTask updateData =
     (if upd_isCompleted updateData = Some True \<and> \<not> isCompleted existingTask then
        (let actualHours = string_or (upd_actualHours updateData) (estimatedHours existingTask);
             hoursAsNumber = parseFloat actualHours;
             xp = Db_calculateXPReward (priority existingTask) hoursAsNumber;
             eu = Db_calculateEUReward (domain existingTask) hoursAsNumber
         in Some (xp, eu, actualHours, now))
      else None)"

definition Db_spread_rewards :: "(number \<times> number \<times> string \<times> Date) option \<Rightarrow> Task \<Rightarrow> Task" where
  "Db_spread_rewards r t =
     (case r of
        None \<Rightarrow> t
      | Some (xp, eu, hours, stamp) \<Rightarrow>
          t\<lparr> xpReward := xp, euReward := eu, actualHours := Some hours, completedAt := Some stamp \<rparr>)"

text \<open>
  The values of \<open>finalUpdateData\<close> as the columns take them. The \<open>actualHours\<close> of the
  patch are not in \<open>finalUpdateData\<close> when \<open>calculatedRewards\<close> has its own.
\<close>

definition numeric_optional :: "string option \<Rightarrow> error + string option" where
  "numeric_optional x =
     (case x of
        None \<Rightarrow> Inr None
      | Some s \<Rightarrow> (case numeric_4_1_column s of Inl e \<Rightarrow> Inl e | Inr v \<Rightarrow> Inr (Some v)))"

definition numeric_nullable :: "string option option \<Rightarrow> error + string option option" where
  "numeric_nullable x =
     (case x of
        Some (Some s) \<Rightarrow>
          (case numeric_4_1_column s of Inl e \<Rightarrow> Inl e | Inr v \<Rightarrow> Inr (Some (Some v)))
      | other \<Rightarrow> Inr other)"

definition Db_columns ::
    "(number \<times> number \<times> string \<times> Date) option \<Rightarrow> UpdateTask
       \<Rightarrow> error + (number \<times> number \<times> string \<times> Date) option \<times> UpdateTask" where
  "Db_columns calculatedRewards updateData =
     (case numeric_optional (upd_estimatedHours updateData) of
        Inl e \<Rightarrow> Inl e
      | Inr est \<Rightarrow>
          (case calculatedRewards of
             None \<Rightarrow>
               (case numeric_nullable (upd_actualHours updateData) of
                  Inl e \<Rightarrow> Inl e
                | Inr act \<Rightarrow>
                    Inr (None, updateData\<lparr> upd_estimatedHours := est, upd_actualHours := act \<rparr>))
           | Some (xp, eu, hours, stamp) \<Rightarrow>
               (case integer_column xp of
                  Inl e \<Rightarrow> Inl e
                | Inr xp' \<Rightarrow>
                    (case integer_column eu of
                       Inl e \<Rightarrow> Inl e
                     | Inr eu' \<Rightarrow>
                         (case numeric_4_1_column hours of
                            Inl e \<Rightarrow> Inl e
                          | Inr hours' \<Rightarrow>
                              Inr (Some (xp', eu', hours', stamp),
                                   updateData\<lparr> upd_estimatedHours := est \<rparr>))))))"

text \<open>
  The update statement writes the columns of \<open>finalUpdateData\<close> to the row whose key is
  \<open>id\<close> and returns the row; \<open>Inl\<close> is the error that the method throws.
\<close>

definition Db_updateTask ::
    "Date \<Rightarrow> tasks \<Rightarrow> string \<Rightarrow> UpdateTask \<Rightarrow> error + Task option \<times> tasks" where
  "Db_updateTask now ts i updateData =
     (case Db_getTask ts i of
        None \<Rightarrow> Inr (None, ts)
      | Some existingTask \<Rightarrow>
          (case Db_columns (Db_calculatedRewards now existingTask updateData) updateData of
             Inl e \<Rightarrow> Inl e
           | Inr (rewards, patch) \<Rightarrow>
               (let finalUpdateData =
                      (\<lambda>row. (Db_spread_rewards rewards (spread_UpdateTask patch row))
                                \<lparr> updatedAt := now \<rparr>)
                in case ts i of
                     None \<Rightarrow> Inr (None, ts)
                   | Some row \<Rightarrow> Inr (Some (finalUpdateData row), ts(i \<mapsto> finalUpdateData row)))))"

text \<open>\<^verbatim>\<open>deleteTask\<close>: whether the row count of the deletion is positive.\<close>

definition Db_deleteTask :: "tasks \<Rightarrow> string \<Rightarrow> bool \<times> tasks" where
  "Db_deleteTask ts i =
     (let rowCount = (if ts i = None then 0 else 1 :: nat) in (0 < rowCount, ts(i := None)))"

section \<open>The storage interface\<close>

text \<open>
  \<^verbatim>\<open>IStorage\<close>, restricted to the task operations the routes below call, and its two
  implementations. The routes import \<open>storage\<close>, which is the database one. An update
  returns \<open>Inl\<close> for an error thrown; the update of \<^verbatim>\<open>MemStorage\<close> throws none.
\<close>

record IStorage =
  getTask :: "tasks \<Rightarrow> string \<Rightarrow> Task option"
  updateTask :: "Date \<Rightarrow> tasks \<Rightarrow> string \<Rightarrow> UpdateTask \<Rightarrow> error + Task option \<times> tasks"
  deleteTask :: "tasks \<Rightarrow> string \<Rightarrow> bool \<times> tasks"

definition MemStorage :: IStorage where
  "MemStorage =
     \<lparr> getTask = Mem_getTask,
       updateTask = (\<lambda>now ts i updateData. Inr (Mem_updateTask now ts i updateData)),
       deleteTask = Mem_deleteTask \<rparr>"

definition DatabaseStorage :: IStorage where
  "DatabaseStorage =
     \<lparr> getTask = Db_getTask, updateTask = Db_updateTask, deleteTask = Db_deleteTask \<rparr>"

definition storage :: IStorage where
  "storage = DatabaseStorage"

text \<open>The task that an update returned: none when it threw or found no row.\<close>

definition returned_task :: "error + Task option \<times> tasks \<Rightarrow> Task option" where
  "returned_task r = (case r of Inl e \<Rightarrow> None | Inr (t, ts) \<Rightarrow> t)"

text \<open>The table after an update of the table \<open>ts\<close>: an update that threw has not changed it.\<close>

definition table_after :: "error + Task option \<times> tasks \<Rightarrow> tasks \<Rightarrow> tasks" where
  "table_after r ts = (case r of Inl e \<Rightarrow> ts | Inr (t, ts') \<Rightarrow> ts')"

section \<open>The task routes\<close>

subsection \<open>Validation of the request body\<close>

text \<open>
  The body of a \<^verbatim>\<open>PATCH\<close> request, with the types \<^verbatim>\<open>clientUpdateTaskSchema\<close> asks for:
  the hours are numbers and the due date is a string. A body with a value of another
  type is outside this model; \<open>clientUpdateTaskSchema_parse\<close> checks the three
  constraints on each of the two numbers. A number of the body is the decimal value
  written in the request.
\<close>

record ClientUpdateTask =
  cl_title :: "string option"
  cl_description :: "string option option"
  cl_domain :: "string option"
  cl_priority :: "string option"
  cl_estimatedHours :: "rat option"
  cl_actualHours :: "rat option"
  cl_isCompleted :: "bool option"
  cl_dueDate :: "string option"

definition multipleOf :: "rat \<Rightarrow> rat \<Rightarrow> bool" where
  "multipleOf step x = (of_int \<lfloor>x / step\<rfloor> * step = x)"

definition number_min_max_multipleOf :: "rat \<Rightarrow> rat \<Rightarrow> rat \<Rightarrow> rat option \<Rightarrow> bool" where
  "number_min_max_multipleOf lo hi step x =
     (case x of None \<Rightarrow> True | Some h \<Rightarrow> lo \<le> h \<and> h \<le> hi \<and> multipleOf step h)"

definition clientUpdateTaskSchema_parse :: "ClientUpdateTask \<Rightarrow> error + ClientUpdateTask" where
  "clientUpdateTaskSchema_parse body =
     (if number_min_max_multipleOf (1 / 10) 100 (1 / 10) (cl_actualHours body)
         \<and> number_min_max_multipleOf (1 / 2) 24 (1 / 2) (cl_estimatedHours body)
      then Inr body else Inl ZodError)"

subsection \<open>Conversion to the server format\<close>

text \<open>
  \<^verbatim>\<open>Number.prototype.toString\<close> on the numbers that reach it: the validation has let
  through multiples of one tenth only, which print as their integer part and, unless it
  is zero, a point and the tenths digit.
\<close>

definition Number_toString :: "rat \<Rightarrow> string" where
  "Number_toString q =
     (let tenths = nat \<lfloor>\<bar>q\<bar> * 10\<rfloor>;
          digits = decimal (tenths div 10)
                     @ (if tenths mod 10 = 0 then [] else CHR ''.'' # decimal (tenths mod 10))
      in if q < 0 then CHR ''-'' # digits else digits)"

text \<open>
  The object \<open>updateData\<close> of the route, its \<^verbatim>\<open>undefined\<close> keys deleted, as
  \<^verbatim>\<open>updateTaskSchema.parse\<close> returns it. \<open>newDate\<close> is \<^verbatim>\<open>new Date(string)\<close>, with
  \<open>None\<close> for an invalid date: the one value of \<open>updateData\<close> that the server schema
  rejects. A number is falsy when it is zero, a string when it is empty.
\<close>

definition number_toString_or_undefined :: "rat option \<Rightarrow> string option" where
  "number_toString_or_undefined x =
     (case x of None \<Rightarrow> None | Some h \<Rightarrow> if h = 0 then None else Some (Number_toString h))"

definition serverFormat ::
    "(string \<Rightarrow> Date option) \<Rightarrow> Date \<Rightarrow> ClientUpdateTask \<Rightarrow> error + UpdateTask" where
  "serverFormat newDate now validatedUpdate =
     (let due = (case cl_dueDate validatedUpdate of
                   None \<Rightarrow> None
                 | Some s \<Rightarrow> if s = [] then None else Some (newDate s))
      in if due = Some None then Inl ZodError
         else Inr
           \<lparr> upd_title = cl_title validatedUpdate,
             upd_description = cl_description validatedUpdate,
             upd_domain = cl_domain validatedUpdate,
             upd_priority = cl_priority validatedUpdate,
             upd_estimatedHours = number_toString_or_undefined (cl_estimatedHours validatedUpdate),
             upd_actualHours =
               map_option Some (number_toString_or_undefined (cl_actualHours validatedUpdate)),
             upd_isCompleted = cl_isCompleted validatedUpdate,
             upd_completedAt =
               (if cl_isCompleted validatedUpdate = Some True then Some (Some now) else None),
             upd_dueDate = (case due of Some (Some d) \<Rightarrow> Some (Some d) | _ \<Rightarrow> None) \<rparr>)"

subsection \<open>PATCH and DELETE /api/tasks/:id\<close>

datatype response =
    Unauthorized
  | Task_not_found
  | Invalid_update_data
  | Cannot_uncomplete
  | Json Task
  | No_content
  | Failed_to_update_task

fun status :: "response \<Rightarrow> nat" where
  "status Unauthorized = 401"
| "status Task_not_found = 404"
| "status Invalid_update_data = 400"
| "status Cannot_uncomplete = 400"
| "status (Json t) = 200"
| "status No_content = 204"
| "status Failed_to_update_task = 500"

text \<open>
  A route takes the storage, the user of the session (\<open>None\<close> without one), the
  \<^verbatim>\<open>:id\<close> of the path and the table, and gives the response and the table after the
  request. An error that the storage throws in an update is caught and answered with
  status 500. The clock readings of one request are one instant.
\<close>

definition patch_task ::
    "IStorage \<Rightarrow> (string \<Rightarrow> Date option) \<Rightarrow> Date \<Rightarrow> string option \<Rightarrow> string \<Rightarrow> ClientUpdateTask
       \<Rightarrow> tasks \<Rightarrow> response \<times> tasks" where
  "patch_task st newDate now session taskId body ts =
     (case session of
        None \<Rightarrow> (Unauthorized, ts)
      | Some uid \<Rightarrow>
          if uid = [] then (Unauthorized, ts)
          else
            (case getTask st ts taskId of
               None \<Rightarrow> (Task_not_found, ts)
             | Some existingTask \<Rightarrow>
                 if userId existingTask \<noteq> uid then (Task_not_found, ts)
                 else
                   (case clientUpdateTaskSchema_parse body of
                      Inl e \<Rightarrow> (Invalid_update_data, ts)
                    | Inr validatedUpdate \<Rightarrow>
                        if cl_isCompleted validatedUpdate = Some False \<and> isCompleted existingTask
                        then (Cannot_uncomplete, ts)
                        else
                          (case serverFormat newDate now validatedUpdate of
                             Inl e \<Rightarrow> (Invalid_update_data, ts)
                           | Inr updateData \<Rightarrow>
                               (case updateTask st now ts taskId updateData of
                                  Inl e \<Rightarrow> (Failed_to_update_task, ts)
                                | Inr (None, ts') \<Rightarrow> (Task_not_found, ts')
                                | Inr (Some updatedTask, ts') \<Rightarrow> (Json updatedTask, ts'))))))"

definition delete_task :: "IStorage \<Rightarrow> string option \<Rightarrow> string \<Rightarrow> tasks \<Rightarrow> response \<times> tasks" where
  "delete_task st session taskId ts =
     (case session of
        None \<Rightarrow> (Unauthorized, ts)
      | Some uid \<Rightarrow>
          if uid = [] then (Unauthorized, ts)
          else
            (case getTask st ts taskId of
               None \<Rightarrow> (Task_not_found, ts)
             | Some existingTask \<Rightarrow>
                 if userId existingTask \<noteq> uid then (Task_not_found, ts)
                 else
                   (case deleteTask st ts taskId of
                      (False, ts') \<Rightarrow> (Task_not_found, ts')
                    | (True, ts') \<Rightarrow> (No_content, ts'))))"

section \<open>The words of the specification\<close>

text \<open>
  The specification takes the hours as real numbers and rounds half away from zero, and
  takes the hours of a completion as \<^verbatim>\<open>patch.actualHours ?? existingTask.estimatedHours\<close>.
  These two definitions follow its words; they are compared with the code below.
\<close>

definition round_half_away :: "rat \<Rightarrow> int" where
  "round_half_away x = (if x < 0 then - \<lfloor>- x + 1 / 2\<rfloor> else \<lfloor>x + 1 / 2\<rfloor>)"


section \<open>Example data\<close>

text \<open>A pending task of user \<open>u\<close>: three estimated hours, urgent, academic.\<close>

definition task_3h :: Task where
  "task_3h =
     \<lparr> id_field = ''a'', userId = ''u'', title = ''t'', description = None,
       domain = ''academic'', priority = ''urgent'', estimatedHours = ''3.0'',
       actualHours = None, xpReward = Fin 0, euReward = Fin 0, isCompleted = False,
       completedAt = None, dueDate = None, createdAt = 0, updatedAt = 0 \<rparr>"

definition table_3h :: tasks where
  "table_3h = [''a'' \<mapsto> task_3h]"

text \<open>Patches for the storage layer.\<close>

definition patch_complete :: UpdateTask where
  "patch_complete =
     \<lparr> upd_title = None, upd_description = None, upd_domain = None, upd_priority = None,
       upd_estimatedHours = None, upd_actualHours = None, upd_isCompleted = Some True,
       upd_completedAt = None, upd_dueDate = None \<rparr>"



definition complete_1h :: UpdateTask where
  "complete_1h = patch_complete \<lparr> upd_actualHours := Some (Some ''1.0'') \<rparr>"

definition uncomplete_low :: UpdateTask where
  "uncomplete_low = patch_complete \<lparr> upd_isCompleted := Some False, upd_priority := Some ''low'' \<rparr>"

text \<open>Request bodies, and a \<^verbatim>\<open>Date\<close> constructor for requests without a due date.\<close>

definition body_complete :: ClientUpdateTask where
  "body_complete =
     \<lparr> cl_title = None, cl_description = None, cl_domain = None, cl_priority = None,
       cl_estimatedHours = None, cl_actualHours = None, cl_isCompleted = Some True,
       cl_dueDate = None \<rparr>"

definition body_uncomplete :: ClientUpdateTask where
  "body_uncomplete = body_complete \<lparr> cl_isCompleted := Some False \<rparr>"

definition no_date :: "string \<Rightarrow> Date option" where
  "no_date s = None"

text \<open>The table after user \<open>u\<close> has completed the task at time 5, and the task in it.\<close>

definition table_completed :: tasks where
  "table_completed = snd (patch_task storage no_date 5 (Some ''u'') ''a'' body_complete table_3h)"

definition task_completed :: Task where
  "task_completed =
     task_3h \<lparr> actualHours := Some ''3.0'', xpReward := Fin 120, euReward := Fin 30,
               isCompleted := True, completedAt := Some 5, updatedAt := 5 \<rparr>"

text \<open>A pending task of high priority, and a request that completes it with 2.3 hours.\<close>

definition table_high :: tasks where
  "table_high = [''a'' \<mapsto> task_3h \<lparr> priority := ''high'' \<rparr>]"

definition body_complete_2_3 :: ClientUpdateTask where
  "body_complete_2_3 = body_complete \<lparr> cl_actualHours := Some (23 / 10) \<rparr>"

text \<open>A create-task input that leaves every optional key out.\<close>

definition insert_minimal :: InsertTask where
  "insert_minimal =
     \<lparr> ins_userId = ''u'', ins_title = ''t'', ins_description = None, ins_domain = ''fitness'',
       ins_priority = None, ins_estimatedHours = None, ins_actualHours = None,
       ins_dueDate = None \<rparr>"

section \<open>The reward functions\<close>

lemma Db_calculateXPReward_eq: "Db_calculateXPReward p h = Mem_calculateXPReward p h"
  by (simp add: Db_calculateXPReward_def Mem_calculateXPReward_def)

lemma Db_calculateEUReward_eq: "Db_calculateEUReward d h = Mem_calculateEUReward d h"
  by (simp add: Db_calculateEUReward_def Mem_calculateEUReward_def)

text \<open>On a number that is not negative, \<^verbatim>\<open>Math.round\<close> rounds half away from zero.\<close>

lemma Math_round_nonneg: "0 \<le> x \<Longrightarrow> Math_round (Fin x) = Fin (of_int (round_half_away x))"
  by (simp add: round_half_away_def)

text \<open>The two examples of the specification: whole hours are exact.\<close>

lemma reward_examples:
  "Mem_calculateXPReward ''high'' (parseFloat ''2.0'') = Fin 50"
  "Mem_calculateEUReward ''fitness'' (parseFloat ''2.0'') = Fin 50"
  by code_simp+

text \<open>
  Claim C4. The claim gives, for high priority and every number of hours that is not
  negative, the XP reward as the product of 25 and the hours, rounded. For 2.3 hours,
  which the route accepts, the product is 57.5 and its rounding is 58. The code
  multiplies doubles: the double nearest to 2.3 is below it, the product is below 57.5,
  and both storage classes return 57; a \<^verbatim>\<open>PATCH\<close> request that completes a task of
  high priority with 2.3 hours stores 57.
\<close>

theorem fractional_hours_reward:
  "parseFloat ''2.3'' = double (23 / 10)
   \<and> Mem_calculateXPReward ''high'' (parseFloat ''2.3'') = Fin 57
   \<and> Db_calculateXPReward ''high'' (parseFloat ''2.3'') = Fin 57
   \<and> round_half_away (25 * (23 / 10)) = 58
   \<and> map_option xpReward
       (snd (patch_task storage no_date 5 (Some ''u'') ''a'' body_complete_2_3 table_high) ''a'')
     = Some (Fin 57)"
  by code_simp

text \<open>
  Outside the own keys of the two tables and the names that every object inherits, the
  lookup is \<^verbatim>\<open>undefined\<close> and the fallback multiplier applies.
\<close>

lemma xp_fallback:
  assumes "p \<notin> {''low'', ''medium'', ''high'', ''urgent''}" and "p \<notin> set Object_prototype_keys"
  shows "Mem_calculateXPReward p h = Math_round (times_number (Fin 15) h)"
  using assms
  by (simp add: Mem_calculateXPReward_def or_else_def getProperty_def basePriorityMultipliers_def)

lemma eu_fallback:
  assumes "d \<notin> {''academic'', ''fitness'', ''creative'', ''social'', ''maintenance''}"
    and "d \<notin> set Object_prototype_keys"
  shows "Mem_calculateEUReward d h = Math_round (times_number (times_number h (Fin 1)) (Fin 10))"
  using assms
  by (simp add: Mem_calculateEUReward_def or_else_def getProperty_def domainMultipliers_def)

lemma unknown_key_rewards:
  "Mem_calculateXPReward ''unknown'' (Fin 1) = Fin 15"
  "Db_calculateEUReward ''unknown'' (Fin 1) = Fin 10"
  by code_simp+

text \<open>
  Claim C5. The claim gives every priority outside the four known ones the multiplier 15,
  and every domain outside the five known ones the multiplier 1.0. The code looks the
  key up in an object literal, which also answers for the names inherited from
  \<^verbatim>\<open>Object.prototype\<close>: for the priority or the domain \<^verbatim>\<open>constructor\<close> the lookup is a
  function, the fallback is not taken, and the reward for one hour is \<open>NaN\<close>, where the
  claim says 15 and 10.
\<close>

theorem inherited_key_reward:
  "Mem_calculateXPReward ''constructor'' (Fin 1) = NaN
   \<and> Db_calculateEUReward ''constructor'' (Fin 1) = NaN"
  by code_simp

section \<open>The storage layer\<close>

subsection \<open>The columns of the database\<close>






lemma integer_column_Inr: "integer_column n = Inr m \<Longrightarrow> m = n"
  by (cases n) (simp_all add: integer_column_def split: if_splits)


lemma Db_columns_completing:
  assumes "Db_columns (Some (xp, eu, hours, stamp)) u = Inr (rewards, patch)"
  obtains est stored where "numeric_4_1_column hours = Inr stored"
    and "integer_column xp = Inr xp" and "integer_column eu = Inr eu"
    and "rewards = Some (xp, eu, stored, stamp)" and "patch = u \<lparr> upd_estimatedHours := est \<rparr>"
  using assms
  by (auto simp add: Db_columns_def split: sum.splits dest!: integer_column_Inr)

lemma Db_columns_other:
  assumes "Db_columns None u = Inr (rewards, patch)"
  obtains est act where "rewards = None"
    and "patch = u \<lparr> upd_estimatedHours := est, upd_actualHours := act \<rparr>"
  using assms
  by (auto simp add: Db_columns_def split: sum.splits)


subsection \<open>What an update returns\<close>

lemma Mem_updateTask_completing:
  assumes "ts i = Some ex" and "\<not> isCompleted ex" and "upd_isCompleted u = Some True"
    and "hours = string_or (upd_actualHours u) (estimatedHours ex)"
    and "t = (spread_UpdateTask u ex)
               \<lparr> xpReward := Mem_calculateXPReward (priority ex) (parseFloat hours),
                 euReward := Mem_calculateEUReward (domain ex) (parseFloat hours),
                 actualHours := Some hours, updatedAt := now \<rparr>"
  shows "Mem_updateTask now ts i u = (Some t, ts(i \<mapsto> t))"
  using assms
  by (simp add: Mem_updateTask_def Mem_calculatedRewards_def Mem_spread_rewards_def Let_def)

lemma Mem_updateTask_other:
  assumes "ts i = Some ex" and "isCompleted ex \<or> upd_isCompleted u \<noteq> Some True"
    and "t = (spread_UpdateTask u ex) \<lparr> updatedAt := now \<rparr>"
  shows "Mem_updateTask now ts i u = (Some t, ts(i \<mapsto> t))"
  using assms
  by (auto simp add: Mem_updateTask_def Mem_calculatedRewards_def Mem_spread_rewards_def Let_def)

lemma Db_updateTask_found:
  assumes "ts i = Some ex"
  shows "Db_updateTask now ts i u =
     (case Db_columns (Db_calculatedRewards now ex u) u of
        Inl e \<Rightarrow> Inl e
      | Inr (rewards, patch) \<Rightarrow>
          Inr (Some ((Db_spread_rewards rewards (spread_UpdateTask patch ex)) \<lparr> updatedAt := now \<rparr>),
               ts(i \<mapsto> (Db_spread_rewards rewards (spread_UpdateTask patch ex))
                            \<lparr> updatedAt := now \<rparr>)))"
  using assms
  by (simp add: Db_updateTask_def Db_getTask_def Let_def split: sum.splits prod.splits)

lemma Db_calculatedRewards_completing:
  assumes "\<not> isCompleted ex" and "upd_isCompleted u = Some True"
    and "hours = string_or (upd_actualHours u) (estimatedHours ex)"
  shows "Db_calculatedRewards now ex u =
           Some (Db_calculateXPReward (priority ex) (parseFloat hours),
                 Db_calculateEUReward (domain ex) (parseFloat hours), hours, now)"
  using assms by (simp add: Db_calculatedRewards_def Let_def)

lemma Db_calculatedRewards_other:
  assumes "isCompleted ex \<or> upd_isCompleted u \<noteq> Some True"
  shows "Db_calculatedRewards now ex u = None"
  using assms by (auto simp add: Db_calculatedRewards_def)

lemma Db_updateTask_completing:
  assumes "ts i = Some ex" and "\<not> isCompleted ex" and "upd_isCompleted u = Some True"
    and "hours = string_or (upd_actualHours u) (estimatedHours ex)"
    and "Db_updateTask now ts i u = Inr r"
  obtains est stored where "numeric_4_1_column hours = Inr stored"
    and "r = (Some ((spread_UpdateTask (u \<lparr> upd_estimatedHours := est \<rparr>) ex)
                \<lparr> xpReward := Db_calculateXPReward (priority ex) (parseFloat hours),
                  euReward := Db_calculateEUReward (domain ex) (parseFloat hours),
                  actualHours := Some stored, completedAt := Some now, updatedAt := now \<rparr>),
              ts(i \<mapsto> (spread_UpdateTask (u \<lparr> upd_estimatedHours := est \<rparr>) ex)
                \<lparr> xpReward := Db_calculateXPReward (priority ex) (parseFloat hours),
                  euReward := Db_calculateEUReward (domain ex) (parseFloat hours),
                  actualHours := Some stored, completedAt := Some now, updatedAt := now \<rparr>))"
proof -
  let ?xp = "Db_calculateXPReward (priority ex) (parseFloat hours)"
  let ?eu = "Db_calculateEUReward (domain ex) (parseFloat hours)"
  note calc = Db_calculatedRewards_completing [OF assms(2-4), of now]
  from assms(5) obtain rewards patch
    where cols: "Db_columns (Some (?xp, ?eu, hours, now)) u = Inr (rewards, patch)"
      and r: "r = (Some ((Db_spread_rewards rewards (spread_UpdateTask patch ex)) \<lparr> updatedAt := now \<rparr>),
                   ts(i \<mapsto> (Db_spread_rewards rewards (spread_UpdateTask patch ex)) \<lparr> updatedAt := now \<rparr>))"
    by (auto simp add: Db_updateTask_found [where ts = ts and i = i, OF assms(1)] calc
        split: sum.splits)
  from cols obtain est stored where s: "numeric_4_1_column hours = Inr stored"
    and rw: "rewards = Some (?xp, ?eu, stored, now)" and pa: "patch = u \<lparr> upd_estimatedHours := est \<rparr>"
    by (rule Db_columns_completing)
  show ?thesis
    by (rule that [where stored = stored and est = est]) (simp_all add: s r rw pa Db_spread_rewards_def)
qed

lemma Db_updateTask_other:
  assumes "ts i = Some ex" and "isCompleted ex \<or> upd_isCompleted u \<noteq> Some True"
    and "Db_updateTask now ts i u = Inr r"
  obtains est act
  where "r = (Some ((spread_UpdateTask (u \<lparr> upd_estimatedHours := est, upd_actualHours := act \<rparr>) ex)
                \<lparr> updatedAt := now \<rparr>),
              ts(i \<mapsto> (spread_UpdateTask (u \<lparr> upd_estimatedHours := est, upd_actualHours := act \<rparr>) ex)
                \<lparr> updatedAt := now \<rparr>))"
proof -
  note calc = Db_calculatedRewards_other [OF assms(2), of now]
  from assms(3) obtain rewards patch
    where cols: "Db_columns None u = Inr (rewards, patch)"
      and r: "r = (Some ((Db_spread_rewards rewards (spread_UpdateTask patch ex)) \<lparr> updatedAt := now \<rparr>),
                   ts(i \<mapsto> (Db_spread_rewards rewards (spread_UpdateTask patch ex)) \<lparr> updatedAt := now \<rparr>))"
    by (auto simp add: Db_updateTask_found [where ts = ts and i = i, OF assms(1)] calc
        split: sum.splits)
  from cols obtain est act where rw: "rewards = None"
    and pa: "patch = u \<lparr> upd_estimatedHours := est, upd_actualHours := act \<rparr>"
    by (rule Db_columns_other)
  show ?thesis
    by (rule that [where est = est and act = act]) (simp add: r rw pa Db_spread_rewards_def)
qed


lemma spread_keeps:
  "xpReward (spread_UpdateTask u t) = xpReward t"
  "euReward (spread_UpdateTask u t) = euReward t"
  "userId (spread_UpdateTask u t) = userId t"
  "id_field (spread_UpdateTask u t) = id_field t"
  "createdAt (spread_UpdateTask u t) = createdAt t"
  by (simp_all add: spread_UpdateTask_def)

lemma spread_fields:
  "isCompleted (spread_UpdateTask u t) = nullish (upd_isCompleted u) (isCompleted t)"
  "completedAt (spread_UpdateTask u t) = nullish (upd_completedAt u) (completedAt t)"
  "actualHours (spread_UpdateTask u t) = nullish (upd_actualHours u) (actualHours t)"
  "priority (spread_UpdateTask u t) = nullish (upd_priority u) (priority t)"
  "domain (spread_UpdateTask u t) = nullish (upd_domain u) (domain t)"
  "estimatedHours (spread_UpdateTask u t) = nullish (upd_estimatedHours u) (estimatedHours t)"
  by (simp_all add: spread_UpdateTask_def)





lemma table_completed_a: "table_completed ''a'' = Some task_completed"
  by code_simp



subsection \<open>Completion\<close>




subsection \<open>The two storage classes compared\<close>

text \<open>
  When the database accepts the update, the two classes agree on the completion flag and
  the rewards, and on the completion time of every update that is not a completion.
\<close>

lemma storages_agree:
  assumes "Mem_updateTask now ts i u = (m, ts1)" and "Db_updateTask now ts i u = Inr (d, ts2)"
  shows "map_option isCompleted m = map_option isCompleted d
       \<and> map_option xpReward m = map_option xpReward d
       \<and> map_option euReward m = map_option euReward d
       \<and> (upd_isCompleted u \<noteq> Some True \<or> upd_completedAt u = Some (Some now)
            \<longrightarrow> map_option completedAt m = map_option completedAt d)"
proof (cases "ts i")
  case None
  with assms show ?thesis
    by (simp add: Mem_updateTask_def Db_updateTask_def Db_getTask_def)
next
  case (Some ex)
  show ?thesis
  proof (cases "\<not> isCompleted ex \<and> upd_isCompleted u = Some True")
    case True
    then have c: "\<not> isCompleted ex" "upd_isCompleted u = Some True"
      by simp_all
    from Some c refl assms(2) obtain est stored
      where d: "(d, ts2) = (Some ((spread_UpdateTask (u \<lparr> upd_estimatedHours := est \<rparr>) ex)
                \<lparr> xpReward := Db_calculateXPReward (priority ex)
                      (parseFloat (string_or (upd_actualHours u) (estimatedHours ex))),
                  euReward := Db_calculateEUReward (domain ex)
                      (parseFloat (string_or (upd_actualHours u) (estimatedHours ex))),
                  actualHours := Some stored, completedAt := Some now, updatedAt := now \<rparr>),
              ts(i \<mapsto> (spread_UpdateTask (u \<lparr> upd_estimatedHours := est \<rparr>) ex)
                \<lparr> xpReward := Db_calculateXPReward (priority ex)
                      (parseFloat (string_or (upd_actualHours u) (estimatedHours ex))),
                  euReward := Db_calculateEUReward (domain ex)
                      (parseFloat (string_or (upd_actualHours u) (estimatedHours ex))),
                  actualHours := Some stored, completedAt := Some now, updatedAt := now \<rparr>))"
      by (rule Db_updateTask_completing [where ts = ts and i = i])
    from assms(1) c d show ?thesis
      by (auto simp add: Mem_updateTask_completing [where ts = ts and i = i, OF Some c refl refl]
          Db_calculateXPReward_eq Db_calculateEUReward_eq spread_fields nullish_def)
  next
    case False
    then have c: "isCompleted ex \<or> upd_isCompleted u \<noteq> Some True"
      by blast
    from Some c assms(2) obtain est act
      where d: "(d, ts2) = (Some ((spread_UpdateTask (u \<lparr> upd_estimatedHours := est, upd_actualHours := act \<rparr>) ex)
                \<lparr> updatedAt := now \<rparr>),
              ts(i \<mapsto> (spread_UpdateTask (u \<lparr> upd_estimatedHours := est, upd_actualHours := act \<rparr>) ex)
                \<lparr> updatedAt := now \<rparr>))"
      by (rule Db_updateTask_other [where ts = ts and i = i])
    from assms(1) d show ?thesis
      by (auto simp add: Mem_updateTask_other [where ts = ts and i = i, OF Some c refl]
          spread_fields spread_keeps)
  qed
qed

text \<open>
  Claim C6. The claim makes the two classes return the same \<open>isCompleted\<close>, \<open>xpReward\<close>,
  \<open>euReward\<close>, \<open>actualHours\<close> and \<open>completedAt\<close> for every task and patch. For the pending
  task and the patch that only sets \<open>isCompleted\<close> to true, the completion time of the
  task that \<^verbatim>\<open>MemStorage\<close> returns is still \<^verbatim>\<open>null\<close>, and the one that
  \<^verbatim>\<open>DatabaseStorage\<close> returns is the time of the update.
\<close>

theorem storages_differ_on_completedAt:
  "map_option completedAt (fst (Mem_updateTask 5 table_3h ''a'' patch_complete)) = Some None
   \<and> map_option completedAt (returned_task (Db_updateTask 5 table_3h ''a'' patch_complete))
       = Some (Some 5)"
  by code_simp

subsection \<open>Creation and deletion\<close>

text \<open>
  Claim C7. A task created by \<^verbatim>\<open>MemStorage.createTask\<close> is read back under the
  identifier it was given. It is not completed, its rewards are 0, its completion time
  and actual hours are \<^verbatim>\<open>null\<close>; its owner, title and domain are those of the input; its
  description, priority, estimated hours and due date are those of the input where the
  input has them, and otherwise \<^verbatim>\<open>null\<close>, \<^verbatim>\<open>medium\<close>, \<^verbatim>\<open>1.0\<close> and \<^verbatim>\<open>null\<close>; its identifier
  and its two time stamps are the ones the server assigned.
\<close>

theorem create_then_get:
  "\<exists>task ts'. Mem_createTask now i ts ins = (task, ts') \<and> Mem_getTask ts' i = Some task
     \<and> id_field task = i \<and> createdAt task = now \<and> updatedAt task = now
     \<and> \<not> isCompleted task \<and> xpReward task = Fin 0 \<and> euReward task = Fin 0
     \<and> completedAt task = None \<and> actualHours task = None
     \<and> userId task = ins_userId ins \<and> title task = ins_title ins \<and> domain task = ins_domain ins
     \<and> (\<forall>d. ins_description ins = Some d \<longrightarrow> description task = d)
     \<and> (ins_description ins = None \<longrightarrow> description task = None)
     \<and> (\<forall>p. ins_priority ins = Some p \<longrightarrow> priority task = p)
     \<and> (ins_priority ins = None \<longrightarrow> priority task = ''medium'')
     \<and> (\<forall>h. ins_estimatedHours ins = Some h \<longrightarrow> estimatedHours task = h)
     \<and> (ins_estimatedHours ins = None \<longrightarrow>
          estimatedHours task = ''1.0'' \<and> parseFloat (estimatedHours task) = Fin 1)
     \<and> (\<forall>d. ins_dueDate ins = Some d \<longrightarrow> dueDate task = d)
     \<and> (ins_dueDate ins = None \<longrightarrow> dueDate task = None)"
proof -
  have "parseFloat ''1.0'' = Fin 1"
    by code_simp
  then show ?thesis
    by (auto simp add: Mem_createTask_def Mem_getTask_def nullish_def nullish_null_def Let_def
        split: option.splits)
qed

theorem create_then_get_witness:
  "ins_description insert_minimal = None \<and> ins_priority insert_minimal = None
   \<and> ins_estimatedHours insert_minimal = None \<and> ins_dueDate insert_minimal = None
   \<and> (\<exists>task ts'. Mem_createTask 7 ''b'' table_3h insert_minimal = (task, ts')
         \<and> Mem_getTask ts' ''b'' = Some task \<and> id_field task = ''b''
         \<and> \<not> isCompleted task \<and> xpReward task = Fin 0 \<and> euReward task = Fin 0
         \<and> title task = ''t'' \<and> domain task = ''fitness'' \<and> description task = None
         \<and> priority task = ''medium'' \<and> estimatedHours task = ''1.0'' \<and> dueDate task = None)"
proof -
  have n: "ins_description insert_minimal = None \<and> ins_priority insert_minimal = None
           \<and> ins_estimatedHours insert_minimal = None \<and> ins_dueDate insert_minimal = None"
    by (simp add: insert_minimal_def)
  have v: "ins_title insert_minimal = ''t'' \<and> ins_domain insert_minimal = ''fitness''"
    by (simp add: insert_minimal_def)
  from create_then_get [of 7 "''b''" table_3h insert_minimal] n v show ?thesis
    by (elim exE conjE) (intro conjI exI, simp_all)
qed

text \<open>
  Claim C9. In both storage classes \<^verbatim>\<open>deleteTask\<close> returns false for an identifier that
  is not stored; for one that is stored it returns true, and \<^verbatim>\<open>getTask\<close> then finds no
  task under it.
\<close>

theorem delete_signalling:
  "(ts i = None \<longrightarrow> fst (Mem_deleteTask ts i) = False \<and> fst (Db_deleteTask ts i) = False)
   \<and> (ts i \<noteq> None \<longrightarrow>
        fst (Mem_deleteTask ts i) = True \<and> Mem_getTask (snd (Mem_deleteTask ts i)) i = None
        \<and> fst (Db_deleteTask ts i) = True \<and> Db_getTask (snd (Db_deleteTask ts i)) i = None)"
  by (simp add: Mem_deleteTask_def Db_deleteTask_def Mem_getTask_def Db_getTask_def)

theorem delete_signalling_witness:
  "table_3h ''b'' = None \<and> fst (Mem_deleteTask table_3h ''b'') = False
   \<and> fst (Db_deleteTask table_3h ''b'') = False
   \<and> table_3h ''a'' \<noteq> None \<and> fst (Mem_deleteTask table_3h ''a'') = True
   \<and> Mem_getTask (snd (Mem_deleteTask table_3h ''a'')) ''a'' = None
   \<and> fst (Db_deleteTask table_3h ''a'') = True
   \<and> Db_getTask (snd (Db_deleteTask table_3h ''a'')) ''a'' = None"
proof -
  have b: "table_3h ''b'' = None"
    by (simp add: table_3h_def)
  have a: "table_3h ''a'' \<noteq> None"
    by (simp add: table_3h_def)
  from delete_signalling [of table_3h "''b''"] delete_signalling [of table_3h "''a''"] a b
  show ?thesis
    by blast
qed

subsection \<open>Updates of a completed task in the storage layer\<close>

text \<open>
  Claim C10. Called directly on a stored task that is completed, with a patch whose
  \<open>isCompleted\<close> is false, \<^verbatim>\<open>MemStorage.updateTask\<close> returns and stores a task that is
  not completed and has the XP and EU rewards it had. A later update whose \<open>isCompleted\<close>
  is true completes it again and computes the rewards anew, from the priority, the domain
  and the hours of that time. \<^verbatim>\<open>DatabaseStorage.updateTask\<close> does the same whenever the
  database accepts the values written.
\<close>

theorem storage_has_no_guard:
  assumes "ts i = Some ex" and "isCompleted ex" and "upd_isCompleted u = Some False"
    and "upd_isCompleted u2 = Some True"
  shows "(\<exists>t ts'. Mem_updateTask now ts i u = (Some t, ts') \<and> ts' i = Some t
            \<and> \<not> isCompleted t \<and> xpReward t = xpReward ex \<and> euReward t = euReward ex
            \<and> (\<exists>t2 ts''. Mem_updateTask now2 ts' i u2 = (Some t2, ts'') \<and> isCompleted t2
                 \<and> xpReward t2 = Mem_calculateXPReward (priority t)
                     (parseFloat (string_or (upd_actualHours u2) (estimatedHours t)))
                 \<and> euReward t2 = Mem_calculateEUReward (domain t)
                     (parseFloat (string_or (upd_actualHours u2) (estimatedHours t)))))
       \<and> (\<forall>r. Db_updateTask now ts i u = Inr r \<longrightarrow>
            (\<exists>t ts'. r = (Some t, ts') \<and> ts' i = Some t
               \<and> \<not> isCompleted t \<and> xpReward t = xpReward ex \<and> euReward t = euReward ex
               \<and> (\<forall>r2. Db_updateTask now2 ts' i u2 = Inr r2 \<longrightarrow>
                    (\<exists>t2 ts''. r2 = (Some t2, ts'') \<and> isCompleted t2
                       \<and> xpReward t2 = Db_calculateXPReward (priority t)
                           (parseFloat (string_or (upd_actualHours u2) (estimatedHours t)))
                       \<and> euReward t2 = Db_calculateEUReward (domain t)
                           (parseFloat (string_or (upd_actualHours u2) (estimatedHours t)))))))"
proof -
  let ?t = "(spread_UpdateTask u ex) \<lparr> updatedAt := now \<rparr>"
  let ?ts = "ts(i \<mapsto> ?t)"
  have c: "isCompleted ex \<or> upd_isCompleted u \<noteq> Some True"
    using assms(2) by simp
  have nc: "\<not> isCompleted ?t"
    using assms(3) by (simp add: spread_fields nullish_def)
  have here: "?ts i = Some ?t"
    by simp
  have m1: "Mem_updateTask now ts i u = (Some ?t, ?ts)"
    by (rule Mem_updateTask_other [where ts = ts and i = i, OF assms(1) c refl])
  have c2: "isCompleted (spread_UpdateTask u2 ?t)"
    using assms(4) by (simp add: spread_fields nullish_def)
  have mem: "\<exists>t ts'. Mem_updateTask now ts i u = (Some t, ts') \<and> ts' i = Some t
            \<and> \<not> isCompleted t \<and> xpReward t = xpReward ex \<and> euReward t = euReward ex
            \<and> (\<exists>t2 ts''. Mem_updateTask now2 ts' i u2 = (Some t2, ts'') \<and> isCompleted t2
                 \<and> xpReward t2 = Mem_calculateXPReward (priority t)
                     (parseFloat (string_or (upd_actualHours u2) (estimatedHours t)))
                 \<and> euReward t2 = Mem_calculateEUReward (domain t)
                     (parseFloat (string_or (upd_actualHours u2) (estimatedHours t))))"
    using nc c2
    by (simp add: m1 spread_keeps
        Mem_updateTask_completing [where ts = "?ts" and i = i, OF here nc assms(4) refl refl])
  have db: "\<exists>t ts'. r = (Some t, ts') \<and> ts' i = Some t
               \<and> \<not> isCompleted t \<and> xpReward t = xpReward ex \<and> euReward t = euReward ex
               \<and> (\<forall>r2. Db_updateTask now2 ts' i u2 = Inr r2 \<longrightarrow>
                    (\<exists>t2 ts''. r2 = (Some t2, ts'') \<and> isCompleted t2
                       \<and> xpReward t2 = Db_calculateXPReward (priority t)
                           (parseFloat (string_or (upd_actualHours u2) (estimatedHours t)))
                       \<and> euReward t2 = Db_calculateEUReward (domain t)
                           (parseFloat (string_or (upd_actualHours u2) (estimatedHours t)))))"
    if "Db_updateTask now ts i u = Inr r" for r
  proof -
    from assms(1) c that obtain est act
      where r: "r = (Some ((spread_UpdateTask (u \<lparr> upd_estimatedHours := est, upd_actualHours := act \<rparr>) ex)
                \<lparr> updatedAt := now \<rparr>),
              ts(i \<mapsto> (spread_UpdateTask (u \<lparr> upd_estimatedHours := est, upd_actualHours := act \<rparr>) ex)
                \<lparr> updatedAt := now \<rparr>))"
      by (rule Db_updateTask_other [where ts = ts and i = i])
    let ?d = "(spread_UpdateTask (u \<lparr> upd_estimatedHours := est, upd_actualHours := act \<rparr>) ex)
                \<lparr> updatedAt := now \<rparr>"
    let ?ds = "ts(i \<mapsto> ?d)"
    have dnc: "\<not> isCompleted ?d"
      using assms(3) by (simp add: spread_fields nullish_def)
    have dhere: "?ds i = Some ?d"
      by simp
    have keep: "xpReward ?d = xpReward ex \<and> euReward ?d = euReward ex"
      by (simp add: spread_keeps)
    have again: "\<exists>t2 ts''. r2 = (Some t2, ts'') \<and> isCompleted t2
                       \<and> xpReward t2 = Db_calculateXPReward (priority ?d)
                           (parseFloat (string_or (upd_actualHours u2) (estimatedHours ?d)))
                       \<and> euReward t2 = Db_calculateEUReward (domain ?d)
                           (parseFloat (string_or (upd_actualHours u2) (estimatedHours ?d)))"
      if "Db_updateTask now2 ?ds i u2 = Inr r2" for r2
    proof -
      from dhere dnc assms(4) refl that obtain est2 stored
        where r2: "r2 = (Some ((spread_UpdateTask (u2 \<lparr> upd_estimatedHours := est2 \<rparr>) ?d)
                \<lparr> xpReward := Db_calculateXPReward (priority ?d)
                      (parseFloat (string_or (upd_actualHours u2) (estimatedHours ?d))),
                  euReward := Db_calculateEUReward (domain ?d)
                      (parseFloat (string_or (upd_actualHours u2) (estimatedHours ?d))),
                  actualHours := Some stored, completedAt := Some now2, updatedAt := now2 \<rparr>),
              ?ds(i \<mapsto> (spread_UpdateTask (u2 \<lparr> upd_estimatedHours := est2 \<rparr>) ?d)
                \<lparr> xpReward := Db_calculateXPReward (priority ?d)
                      (parseFloat (string_or (upd_actualHours u2) (estimatedHours ?d))),
                  euReward := Db_calculateEUReward (domain ?d)
                      (parseFloat (string_or (upd_actualHours u2) (estimatedHours ?d))),
                  actualHours := Some stored, completedAt := Some now2, updatedAt := now2 \<rparr>))"
        by (rule Db_updateTask_completing [where ts = "?ds" and i = i])
      show ?thesis
        using assms(4) by (simp add: r2 spread_fields nullish_def)
    qed
    show ?thesis
    proof (intro exI conjI)
      show "r = (Some ?d, ?ds)"
        by (rule r)
      show "?ds i = Some ?d"
        by (rule dhere)
      show "\<not> isCompleted ?d"
        by (rule dnc)
      show "xpReward ?d = xpReward ex" and "euReward ?d = euReward ex"
        using keep by simp_all
      show "\<forall>r2. Db_updateTask now2 ?ds i u2 = Inr r2 \<longrightarrow>
                    (\<exists>t2 ts''. r2 = (Some t2, ts'') \<and> isCompleted t2
                       \<and> xpReward t2 = Db_calculateXPReward (priority ?d)
                           (parseFloat (string_or (upd_actualHours u2) (estimatedHours ?d)))
                       \<and> euReward t2 = Db_calculateEUReward (domain ?d)
                           (parseFloat (string_or (upd_actualHours u2) (estimatedHours ?d))))"
        using again by blast
    qed
  qed
  from mem db show ?thesis
    by blast
qed

lemma Db_uncompletes_then_completes:
  "map_option xpReward (returned_task (Db_updateTask 8 table_completed ''a'' uncomplete_low))
     = Some (Fin 120)
   \<and> map_option isCompleted (returned_task (Db_updateTask 8 table_completed ''a'' uncomplete_low))
     = Some False
   \<and> map_option xpReward
       (returned_task
         (Db_updateTask 9
           (table_after (Db_updateTask 8 table_completed ''a'' uncomplete_low) table_completed)
           ''a'' complete_1h)) = Some (Fin 10)"
  by code_simp

theorem storage_has_no_guard_witness:
  "table_completed ''a'' = Some task_completed \<and> isCompleted task_completed
   \<and> upd_isCompleted uncomplete_low = Some False \<and> upd_isCompleted complete_1h = Some True
   \<and> xpReward task_completed = Fin 120 \<and> euReward task_completed = Fin 30
   \<and> (\<exists>t ts'. Mem_updateTask 8 table_completed ''a'' uncomplete_low = (Some t, ts')
         \<and> ts' ''a'' = Some t \<and> \<not> isCompleted t \<and> xpReward t = Fin 120 \<and> euReward t = Fin 30
         \<and> (\<exists>t2 ts''. Mem_updateTask 9 ts' ''a'' complete_1h = (Some t2, ts'') \<and> isCompleted t2
              \<and> xpReward t2 = Mem_calculateXPReward (priority t)
                  (parseFloat (string_or (upd_actualHours complete_1h) (estimatedHours t)))))
   \<and> map_option xpReward
       (fst (Mem_updateTask 9 (snd (Mem_updateTask 8 table_completed ''a'' uncomplete_low)) ''a''
              complete_1h)) = Some (Fin 10)
   \<and> map_option xpReward (returned_task (Db_updateTask 8 table_completed ''a'' uncomplete_low))
       = Some (Fin 120)
   \<and> map_option xpReward
       (returned_task
         (Db_updateTask 9
           (table_after (Db_updateTask 8 table_completed ''a'' uncomplete_low) table_completed)
           ''a'' complete_1h)) = Some (Fin 10)"
proof -
  have 1: "table_completed ''a'' = Some task_completed"
    by (rule table_completed_a)
  have 2: "isCompleted task_completed"
    by (simp add: task_completed_def)
  have 3: "upd_isCompleted uncomplete_low = Some False"
    by (simp add: uncomplete_low_def)
  have 4: "upd_isCompleted complete_1h = Some True"
    by (simp add: complete_1h_def patch_complete_def)
  have 5: "xpReward task_completed = Fin 120 \<and> euReward task_completed = Fin 30"
    by (simp add: task_completed_def)
  have 6: "map_option xpReward
       (fst (Mem_updateTask 9 (snd (Mem_updateTask 8 table_completed ''a'' uncomplete_low)) ''a''
              complete_1h)) = Some (Fin 10)"
    by code_simp
  have 7: "map_option xpReward (returned_task (Db_updateTask 8 table_completed ''a'' uncomplete_low))
       = Some (Fin 120)
   \<and> map_option xpReward
       (returned_task
         (Db_updateTask 9
           (table_after (Db_updateTask 8 table_completed ''a'' uncomplete_low) table_completed)
           ''a'' complete_1h)) = Some (Fin 10)"
    using Db_uncompletes_then_completes by blast
  from storage_has_no_guard [where ts = table_completed and i = "''a''", OF 1 2 3 4, of 8 9]
  have "\<exists>t ts'. Mem_updateTask 8 table_completed ''a'' uncomplete_low = (Some t, ts')
         \<and> ts' ''a'' = Some t \<and> \<not> isCompleted t \<and> xpReward t = xpReward task_completed
         \<and> euReward t = euReward task_completed
         \<and> (\<exists>t2 ts''. Mem_updateTask 9 ts' ''a'' complete_1h = (Some t2, ts'') \<and> isCompleted t2
              \<and> xpReward t2 = Mem_calculateXPReward (priority t)
                  (parseFloat (string_or (upd_actualHours complete_1h) (estimatedHours t)))
              \<and> euReward t2 = Mem_calculateEUReward (domain t)
                  (parseFloat (string_or (upd_actualHours complete_1h) (estimatedHours t))))"
    by (rule conjunct1)
  then have "\<exists>t ts'. Mem_updateTask 8 table_completed ''a'' uncomplete_low = (Some t, ts')
         \<and> ts' ''a'' = Some t \<and> \<not> isCompleted t \<and> xpReward t = Fin 120 \<and> euReward t = Fin 30
         \<and> (\<exists>t2 ts''. Mem_updateTask 9 ts' ''a'' complete_1h = (Some t2, ts'') \<and> isCompleted t2
              \<and> xpReward t2 = Mem_calculateXPReward (priority t)
                  (parseFloat (string_or (upd_actualHours complete_1h) (estimatedHours t))))"
    using 5 by (elim exE conjE) (intro exI conjI, simp_all)
  with 1 2 3 4 5 6 7 show ?thesis
    by (intro conjI) simp_all
qed

section \<open>The routes\<close>

lemma storage_getTask: "getTask storage ts i = ts i"
  by (simp add: storage_def DatabaseStorage_def Db_getTask_def)

lemma storage_updateTask: "updateTask storage = Db_updateTask"
  by (simp add: storage_def DatabaseStorage_def)

lemma serverFormat_completion:
  assumes "serverFormat newDate now v = Inr u"
  shows "upd_isCompleted u = cl_isCompleted v"
    and "upd_completedAt u = (if cl_isCompleted v = Some True then Some (Some now) else None)"
  using assms by (auto simp add: serverFormat_def Let_def split: if_splits)

lemma body_uncomplete_valid: "clientUpdateTaskSchema_parse body_uncomplete = Inr body_uncomplete"
  by (simp add: clientUpdateTaskSchema_parse_def number_min_max_multipleOf_def
      body_uncomplete_def body_complete_def)

subsection \<open>The guard against un-completing\<close>

text \<open>
  Claim C2. A \<^verbatim>\<open>PATCH\<close> request of the owner of a stored, completed task, with a body
  whose \<open>isCompleted\<close> is false, is answered with status 400 and leaves the table as it
  was; when the body passes the validation the answer is the one of the un-complete
  guard. This holds for every storage behind the route, whatever its \<^verbatim>\<open>updateTask\<close>
  does: the route answers before it calls the storage.
\<close>

theorem uncomplete_guard:
  assumes "uid \<noteq> []" and "getTask st ts taskId = Some ex" and "userId ex = uid"
    and "isCompleted ex" and "cl_isCompleted body = Some False"
  shows "status (fst (patch_task st newDate now (Some uid) taskId body ts)) = 400
       \<and> snd (patch_task st newDate now (Some uid) taskId body ts) = ts
       \<and> (clientUpdateTaskSchema_parse body = Inr body \<longrightarrow>
            patch_task st newDate now (Some uid) taskId body ts = (Cannot_uncomplete, ts))"
  using assms
  by (auto simp add: patch_task_def clientUpdateTaskSchema_parse_def split: sum.splits)

theorem uncomplete_guard_witness:
  "''u'' \<noteq> [] \<and> getTask storage table_completed ''a'' = Some task_completed
   \<and> userId task_completed = ''u'' \<and> isCompleted task_completed
   \<and> cl_isCompleted body_uncomplete = Some False
   \<and> clientUpdateTaskSchema_parse body_uncomplete = Inr body_uncomplete
   \<and> patch_task storage no_date 9 (Some ''u'') ''a'' body_uncomplete table_completed
       = (Cannot_uncomplete, table_completed)"
proof -
  have 1: "''u'' \<noteq> []"
    by simp
  have 2: "getTask storage table_completed ''a'' = Some task_completed"
    by (simp add: storage_getTask table_completed_a)
  have 3: "userId task_completed = ''u''"
    by (simp add: task_completed_def task_3h_def)
  have 4: "isCompleted task_completed"
    by (simp add: task_completed_def)
  have 5: "cl_isCompleted body_uncomplete = Some False"
    by (simp add: body_uncomplete_def)
  note 6 = body_uncomplete_valid
  from uncomplete_guard [OF 1 2 3 4 5, of no_date 9] 1 2 3 4 5 6 show ?thesis
    by simp
qed

subsection \<open>A second completion\<close>

text \<open>
  A \<^verbatim>\<open>PATCH\<close> request of the owner that completes a task which is completed already,
  and is answered with the task, leaves the two rewards as they are and sets the
  completion time to the time of the request.
\<close>

lemma second_completion_route:
  assumes "uid \<noteq> []" and "ts taskId = Some ex" and "userId ex = uid" and "isCompleted ex"
    and "cl_isCompleted body = Some True"
    and "patch_task storage newDate now (Some uid) taskId body ts = (Json t, ts')"
  shows "xpReward t = xpReward ex \<and> euReward t = euReward ex \<and> completedAt t = Some now"
proof -
  from assms obtain u r where fmt: "serverFormat newDate now body = Inr u"
    and upd: "Db_updateTask now ts taskId u = Inr r" and t: "returned_task (Inr r) = Some t"
    by (auto simp add: patch_task_def storage_getTask storage_updateTask returned_task_def
        clientUpdateTaskSchema_parse_def split: sum.splits option.splits prod.splits if_splits)
  have c: "isCompleted ex \<or> upd_isCompleted u \<noteq> Some True"
    using assms(4) by simp
  have stamp: "upd_completedAt u = Some (Some now)"
    using serverFormat_completion(2) [OF fmt] assms(5) by simp
  from assms(2) c upd obtain est act
    where "r = (Some ((spread_UpdateTask (u \<lparr> upd_estimatedHours := est, upd_actualHours := act \<rparr>) ex)
                \<lparr> updatedAt := now \<rparr>),
              ts(taskId \<mapsto> (spread_UpdateTask (u \<lparr> upd_estimatedHours := est, upd_actualHours := act \<rparr>) ex)
                \<lparr> updatedAt := now \<rparr>))"
    by (rule Db_updateTask_other [where ts = ts and i = taskId])
  with t stamp show ?thesis
    by (auto simp add: returned_task_def spread_keeps spread_fields nullish_def)
qed

text \<open>
  Claim C3. The claim keeps \<open>xpReward\<close>, \<open>euReward\<close> and \<open>completedAt\<close> of a completed task
  as the first completion fixed them when a second update again has \<open>isCompleted\<close> true.
  The task below was completed by a \<^verbatim>\<open>PATCH\<close> request at time 5; a second request with
  the same body, at time 9, moves its completion time to 9.
\<close>

theorem second_completion_restamps:
  "map_option completedAt (table_completed ''a'') = Some (Some 5)
   \<and> map_option completedAt
       (snd (patch_task storage no_date 9 (Some ''u'') ''a'' body_complete table_completed) ''a'')
     = Some (Some 9)"
  by code_simp

subsection \<open>Ownership\<close>

text \<open>
  Claim C8. A \<^verbatim>\<open>PATCH\<close> or \<^verbatim>\<open>DELETE\<close> request of a signed-in user for a stored task of
  another owner is answered with status 404 and leaves the table as it was, and the
  answer is the same one that a request for an identifier without a task receives.
\<close>

theorem ownership_isolation:
  assumes "uid \<noteq> []" and "getTask st ts taskId = Some ex" and "userId ex \<noteq> uid"
    and "getTask st ts absentId = None"
  shows "patch_task st newDate now (Some uid) taskId body ts = (Task_not_found, ts)
       \<and> delete_task st (Some uid) taskId ts = (Task_not_found, ts)
       \<and> patch_task st newDate now (Some uid) absentId body ts = (Task_not_found, ts)
       \<and> delete_task st (Some uid) absentId ts = (Task_not_found, ts)
       \<and> status Task_not_found = 404"
  using assms by (simp add: patch_task_def delete_task_def)

theorem ownership_isolation_witness:
  "''v'' \<noteq> [] \<and> getTask storage table_3h ''a'' = Some task_3h \<and> userId task_3h \<noteq> ''v''
   \<and> getTask storage table_3h ''b'' = None
   \<and> patch_task storage no_date 9 (Some ''v'') ''a'' body_complete table_3h
       = (Task_not_found, table_3h)
   \<and> delete_task storage (Some ''v'') ''a'' table_3h = (Task_not_found, table_3h)
   \<and> patch_task storage no_date 9 (Some ''v'') ''b'' body_complete table_3h
       = (Task_not_found, table_3h)
   \<and> delete_task storage (Some ''v'') ''b'' table_3h = (Task_not_found, table_3h)"
proof -
  have 1: "''v'' \<noteq> []"
    by simp
  have 2: "getTask storage table_3h ''a'' = Some task_3h"
    by (simp add: storage_getTask table_3h_def)
  have 3: "userId task_3h \<noteq> ''v''"
    by (simp add: task_3h_def)
  have 4: "getTask storage table_3h ''b'' = None"
    by (simp add: storage_getTask table_3h_def)
  from ownership_isolation [OF 1 2 3 4, of no_date 9 body_complete] 1 2 3 4 show ?thesis
    by simp
qed

end
